theory Spec2Isabelle
  imports Main "HOL-Library.Sublist"
begin

section \<open>Strings\<close>

text \<open>
  A Go string is modelled as a \<open>string\<close>, one \<open>char\<close> per byte. The paths, methods and
  patterns of the router are compared byte by byte, as Go's \<open>==\<close> on strings does.
\<close>

text \<open>\<open>strings.Contains(s, sub)\<close>: \<open>sub\<close> occurs in \<open>s\<close> as a contiguous run.\<close>

fun Contains :: "string \<Rightarrow> string \<Rightarrow> bool" where
  "Contains [] sub = (sub = [])"
| "Contains (c # cs) sub = (prefix sub (c # cs) \<or> Contains cs sub)"

text \<open>The backslash, which a string literal of the theory cannot hold.\<close>

definition backslash :: char where
  "backslash = CHR 0x5C"

definition newline :: char where
  "newline = CHR 0x0A"

section \<open>The journal model and \<open>slugify\<close> (main.go)\<close>

record Journal =
  id_j :: int
  slug :: string
  title :: string
  date :: string
  content :: string

text \<open>
  RE2's \<open>\w\<close> is the ASCII class \<open>[0-9A-Za-z_]\<close>; \<open>\W\<close> is its complement, and \<open>[\w\-]\<close>
  adds the hyphen to the word characters.
\<close>

definition is_word_char :: "char \<Rightarrow> bool" where
  "is_word_char c \<longleftrightarrow>
     c \<in> set ''0123456789ABCDEFGHIJKLMNOPQRSTUVWXYZ_abcdefghijklmnopqrstuvwxyz''"

definition is_seg_char :: "char \<Rightarrow> bool" where
  "is_seg_char c \<longleftrightarrow> is_word_char c \<or> c = CHR ''-''"

text \<open>
  The engine reads its input rune by rune, as \<open>utf8.DecodeRuneInString\<close> cuts it: a byte
  below \<open>0x80\<close> is a rune of its own, a well-formed UTF-8 sequence of two to four bytes is
  one rune, and a byte that starts no well-formed sequence is the error rune, of width one.
  \<open>first_byte\<close> is the library's table for the leading byte: the length of the sequence
  and the range accepted for its second byte.
\<close>

definition byte :: "char \<Rightarrow> nat" where
  "byte c = of_char c"

definition in_range :: "char \<Rightarrow> nat \<Rightarrow> nat \<Rightarrow> bool" where
  "in_range c lo hi \<longleftrightarrow> lo \<le> byte c \<and> byte c \<le> hi"

definition first_byte :: "char \<Rightarrow> nat \<times> nat \<times> nat" where
  "first_byte c =
     (let b = byte c in
      if b < 0x80 then (1, 0, 0)
      else if b < 0xC2 then (1, 0, 0)
      else if b < 0xE0 then (2, 0x80, 0xBF)
      else if b = 0xE0 then (3, 0xA0, 0xBF)
      else if b < 0xED then (3, 0x80, 0xBF)
      else if b = 0xED then (3, 0x80, 0x9F)
      else if b < 0xF0 then (3, 0x80, 0xBF)
      else if b = 0xF0 then (4, 0x90, 0xBF)
      else if b < 0xF4 then (4, 0x80, 0xBF)
      else if b = 0xF4 then (4, 0x80, 0x8F)
      else (1, 0, 0))"

text \<open>The number of bytes of the first rune of a string.\<close>

fun rune_width :: "string \<Rightarrow> nat" where
  "rune_width [] = 0"
| "rune_width (c # cs) =
     (case first_byte c of (sz, lo, hi) \<Rightarrow>
        if sz = 1 then 1
        else if length (c # cs) < sz then 1
        else if \<not> in_range (cs ! 0) lo hi then 1
        else if sz \<le> 2 then 2
        else if \<not> in_range (cs ! 1) 0x80 0xBF then 1
        else if sz \<le> 3 then 3
        else if \<not> in_range (cs ! 2) 0x80 0xBF then 1
        else 4)"

text \<open>
  The pattern of \<open>slugify\<close> is \<open>[\W+]\<close>: a character class, holding the non-word characters
  and the literal \<open>+\<close>. It matches exactly one rune at a time; the \<open>+\<close> inside the brackets
  is not a repetition. The class is given on the bytes of a rune: a rune of one byte is in it
  unless that byte is a word character other than \<open>+\<close>, and every longer rune is in it, no
  rune beyond ASCII being a word character.
\<close>

definition slug_class :: "string \<Rightarrow> bool" where
  "slug_class rune \<longleftrightarrow>
     (case rune of [c] \<Rightarrow> \<not> is_word_char c \<or> c = CHR ''+'' | _ \<Rightarrow> True)"

text \<open>
  \<open>re.ReplaceAllString(s, repl)\<close> for a pattern that is one character class: the matches are
  the single runes of the class, each replaced by the replacement text; the other runes are
  copied.
\<close>

fun ReplaceAllString :: "(string \<Rightarrow> bool) \<Rightarrow> string \<Rightarrow> string \<Rightarrow> string" where
  "ReplaceAllString cls [] repl = []"
| "ReplaceAllString cls (c # cs) repl =
     (let n = rune_width (c # cs)
      in (if cls (take n (c # cs)) then repl else take n (c # cs))
           @ ReplaceAllString cls (drop (n - 1) cs) repl)"

text \<open>
  \<open>strings.ToLower\<close> on a string in ASCII, which is all that \<open>slugify\<close> gives it (a word
  character or a hyphen for every rune of the title): the letters \<open>A\<close> to \<open>Z\<close> are lowered
  and every other byte is kept.
\<close>

definition lower_char :: "char \<Rightarrow> char" where
  "lower_char c =
     (case map_of (zip ''ABCDEFGHIJKLMNOPQRSTUVWXYZ'' ''abcdefghijklmnopqrstuvwxyz'') c of
        None \<Rightarrow> c
      | Some l \<Rightarrow> l)"

definition ToLower :: "string \<Rightarrow> string" where
  "ToLower s = map lower_char s"

definition slugify :: "string \<Rightarrow> string" where
  "slugify s = ToLower (ReplaceAllString slug_class s ''-'')"

text \<open>
  What the specification describes instead: every maximal run of non-word characters
  becomes one separator. It is the reading of the pattern as \<open>\W+\<close>, and is only used to
  compare it with \<open>slugify\<close>.
\<close>

fun collapse_runs :: "bool \<Rightarrow> string \<Rightarrow> string" where
  "collapse_runs in_run [] = []"
| "collapse_runs in_run (c # cs) =
     (if is_word_char c then c # collapse_runs False cs
      else if in_run then collapse_runs True cs
      else CHR ''-'' # collapse_runs True cs)"

definition slug_as_specified :: "string \<Rightarrow> string" where
  "slug_as_specified s = ToLower (collapse_runs False s)"

section \<open>Requests and responses\<close>

text \<open>
  The part of \<open>http.Request\<close> the program reads: the method, \<open>URL.Path\<close>, the query of the
  URL and the fields of a form body.
\<close>

record Request =
  Method :: string
  Path :: string
  Query :: "(string \<times> string) list"
  PostForm :: "(string \<times> string) list"

text \<open>
  \<open>r.FormValue(key)\<close>: the first value of the key, the body's fields before the query's,
  and the empty string when the key is absent.
\<close>

definition FormValue :: "Request \<Rightarrow> string \<Rightarrow> string" where
  "FormValue r k = (case map_of (PostForm r @ Query r) k of None \<Rightarrow> [] | Some v \<Rightarrow> v)"

text \<open>
  The response writer keeps what \<open>FakeResponse\<close> of the test file keeps: the written
  content, the headers and the status code (\<open>0\<close> until \<open>WriteHeader\<close> is called).
\<close>

record ResponseWriter =
  Content :: string
  Headers :: "string \<rightharpoonup> string"
  StatusCode :: nat

definition Reset :: "ResponseWriter" where
  "Reset = \<lparr>Content = [], Headers = Map.empty, StatusCode = 0\<rparr>"

definition Write :: "ResponseWriter \<Rightarrow> string \<Rightarrow> ResponseWriter" where
  "Write w b = w\<lparr>Content := Content w @ b\<rparr>"

definition WriteHeader :: "ResponseWriter \<Rightarrow> nat \<Rightarrow> ResponseWriter" where
  "WriteHeader w statusCode = w\<lparr>StatusCode := statusCode\<rparr>"

definition SetHeader :: "ResponseWriter \<Rightarrow> string \<Rightarrow> string \<Rightarrow> ResponseWriter" where
  "SetHeader w k v = w\<lparr>Headers := (Headers w)(k \<mapsto> v)\<rparr>"

text \<open>
  \<open>http.NotFound(w, r)\<close> of the standard library is \<open>http.Error(w, "404 page not found",
  404)\<close>: it sets the two headers, writes the status and prints the text and a newline.
\<close>

definition http_NotFound :: "ResponseWriter \<Rightarrow> ResponseWriter" where
  "http_NotFound w =
     Write (WriteHeader
       (SetHeader (SetHeader w ''Content-Type'' ''text/plain; charset=utf-8'')
          ''X-Content-Type-Options'' ''nosniff'') 404)
       (''404 page not found'' @ [newline])"

text \<open>
  The urls that \<open>http.Redirect\<close> leaves as they are: a rooted path of non-empty segments
  of word characters and hyphens, separated by single slashes, or the root alone, then
  possibly a query of such characters and \<open>=\<close>. Such a url has no scheme and no host, its
  path is clean, and it has no byte to escape.
\<close>

fun plain_from :: "bool \<Rightarrow> string \<Rightarrow> bool" where
  "plain_from after_slash [] = (\<not> after_slash)"
| "plain_from after_slash (c # cs) =
     (if c = CHR ''/'' then \<not> after_slash \<and> plain_from True cs
      else is_seg_char c \<and> plain_from False cs)"

definition plain_path :: "string \<Rightarrow> bool" where
  "plain_path p \<longleftrightarrow>
     (case p of [] \<Rightarrow> False | c # cs \<Rightarrow> c = CHR ''/'' \<and> (cs = [] \<or> plain_from True cs))"

definition plain_query :: "string \<Rightarrow> bool" where
  "plain_query q \<longleftrightarrow>
     (case q of [] \<Rightarrow> True
      | c # cs \<Rightarrow> c = CHR ''?'' \<and> list_all (\<lambda>x. is_seg_char x \<or> x = CHR ''='') cs)"

definition plain_url :: "string \<Rightarrow> bool" where
  "plain_url url \<longleftrightarrow>
     plain_path (takeWhile (\<lambda>c. c \<noteq> CHR ''?'') url)
     \<and> plain_query (dropWhile (\<lambda>c. c \<noteq> CHR ''?'') url)"

text \<open>
  \<open>http.Redirect(w, r, url, code)\<close> of the standard library sets \<open>Location\<close> and writes the
  status; for a \<open>GET\<close> or \<open>HEAD\<close> request with no content type set it adds a short HTML
  body. Before that it rewrites the url: one without a leading slash is resolved against
  the request path, the path is cleaned, bytes beyond ASCII are escaped for the header and
  HTML characters for the body. A plain url comes out of all of these unchanged. For any
  other url the rewriting is left to the library: \<open>lib path url\<close> is the pair of the
  \<open>Location\<close> value and of the text put in the body's link, for the request path and the
  url given. The body is given for status 302, the only one used.
\<close>

definition http_Redirect ::
  "(string \<Rightarrow> string \<Rightarrow> string \<times> string) \<Rightarrow> ResponseWriter \<Rightarrow> Request \<Rightarrow> string \<Rightarrow> nat
     \<Rightarrow> ResponseWriter" where
  "http_Redirect lib w r url code =
     (let (location, href) = (if plain_url url then (url, url) else lib (Path r) url);
          hadCT = (Headers w ''Content-Type'' \<noteq> None);
          body = (Method r = ''GET'' \<or> Method r = ''HEAD'') \<and> \<not> hadCT;
          w1 = SetHeader w ''Location'' location;
          w2 = (if body then SetHeader w1 ''Content-Type'' ''text/html; charset=utf-8'' else w1);
          w3 = WriteHeader w2 code
      in if body \<and> Method r = ''GET''
         then Write w3 (''<a href=\"'' @ href @ ''\">Found</a>.'' @ [newline, newline])
         else w3)"

section \<open>What the program takes from outside\<close>

text \<open>
  The regular-expression engine, the template files and the database driver are not code
  of the program; the model takes them as an environment and is verified for every one.
  \<^item> \<open>MatchString pattern s\<close> is \<open>regexp.MatchString\<close> with its error dropped, as the
    router drops it: false for a pattern that does not compile.
  \<^item> \<open>FindAllString pattern s\<close> is \<open>regexp.MustCompile(pattern).FindAllString(s, -1)\<close>:
    the successive matches of the whole pattern in \<open>s\<close>, from left to right. The router
    only compiles a pattern that \<open>MatchString\<close> has just found to match.
  \<^item> \<open>ParseFiles files\<close> is \<open>template.ParseFiles\<close> with its error dropped: \<open>None\<close> is the
    nil template of a failed parse, \<open>Some t\<close> a template set, where \<open>t name data\<close> is the
    text that executing the template \<open>name\<close> on \<open>data\<close> writes.
  \<^item> \<open>RedirectURL path url\<close> is what \<open>http.Redirect\<close> makes of a url that is not plain.
  \<^item> \<open>Prepare query\<close> is the error of \<open>db.Prepare\<close>, \<open>None\<close> for nil.
  \<^item> \<open>Exec query args\<close> is the pair that \<open>stmt.Exec\<close> returns: the result (\<open>None\<close> for a
    nil result, \<open>Some n\<close> for one whose \<open>LastInsertId\<close> is \<open>n\<close>) and the error.
\<close>

record env =
  MatchString :: "string \<Rightarrow> string \<Rightarrow> bool"
  FindAllString :: "string \<Rightarrow> string \<Rightarrow> string list"
  ParseFiles :: "string list \<Rightarrow> (string \<Rightarrow> string list option \<Rightarrow> string) option"
  RedirectURL :: "string \<Rightarrow> string \<Rightarrow> string \<times> string"
  Prepare :: "string \<Rightarrow> string option"
  Exec :: "string \<Rightarrow> string list \<Rightarrow> int option \<times> string option"

section \<open>Controllers (main.go)\<close>

text \<open>
  The three controller types embed \<open>Controller\<close>, whose only field is \<open>params\<close>. A route
  holds a pointer to a controller, so a controller value is its type and its address, and
  the store maps an address to the \<open>params\<close> kept there.
\<close>

datatype ControllerType = IndexController | NewController | ViewController

record ControllerInterface =
  ctype :: ControllerType
  addr :: nat

text \<open>The calls the router makes on a controller, in the order it makes them.\<close>

datatype call = CallSetParams ControllerInterface "string list" | CallRun ControllerInterface

text \<open>How a handler can stop without returning: a runtime panic, or \<open>log.Fatal\<close>.\<close>

datatype abort = NilDereference | Fatal string

record world =
  params :: "nat \<Rightarrow> string list"
  w :: ResponseWriter
  logged :: "string list"
  calls :: "call list"
  halted :: "abort option"

definition SetParams :: "ControllerInterface \<Rightarrow> string list \<Rightarrow> world \<Rightarrow> world" where
  "SetParams c p s =
     s\<lparr>params := (params s)(addr c := p), calls := calls s @ [CallSetParams c p]\<rparr>"

text \<open>
  The four template calls of every \<open>Run\<close>: \<open>header\<close>, \<open>content\<close> (the only one that is given
  data) and \<open>footer\<close>, then \<open>Execute\<close>, which runs the template named after the first file.
  The errors are dropped; on the nil template of a failed parse the first call panics.
\<close>

definition render :: "env \<Rightarrow> string \<Rightarrow> string list option \<Rightarrow> world \<Rightarrow> world" where
  "render E view data s =
     (case ParseFiles E [''./src/journal/views/_layout/header.tmpl'',
                         ''./src/journal/views/_layout/footer.tmpl'', view] of
        None \<Rightarrow> s\<lparr>halted := Some NilDereference\<rparr>
      | Some t \<Rightarrow>
          s\<lparr>w := Write (Write (Write (Write (w s) (t ''header'' None)) (t ''content'' data))
                   (t ''footer'' None)) (t ''header.tmpl'' None)\<rparr>)"

definition IndexController_Run :: "env \<Rightarrow> Request \<Rightarrow> world \<Rightarrow> world" where
  "IndexController_Run E r s = render E ''./src/journal/views/index.tmpl'' None s"

text \<open>
  \<open>checkErr\<close>: \<open>log.Fatal\<close> on an error, which ends the process; the result is how the
  caller stops, \<open>None\<close> when it goes on.
\<close>

definition checkErr :: "string option \<Rightarrow> abort option" where
  "checkErr err =
     (case err of None \<Rightarrow> None | Some e \<Rightarrow> Some (Fatal (''Error reported: '' @ e)))"

definition insert_query :: string where
  "insert_query = ''INSERT INTO `journal`(`slug`, `title`, `date`, `content`) VALUES(?,?,?,?)''"

text \<open>
  \<open>NewController.Run\<close>. After \<open>stmt.Exec\<close> the error is never read: \<open>LastInsertId\<close> is
  called on the result whatever it is, and a nil result makes that call panic.
\<close>

definition NewController_Run :: "env \<Rightarrow> Request \<Rightarrow> world \<Rightarrow> world" where
  "NewController_Run E r s =
     (if Method r = ''GET'' then render E ''./src/journal/views/new.tmpl'' None s
      else
        case checkErr (Prepare E insert_query) of
          Some a \<Rightarrow> s\<lparr>halted := Some a\<rparr>
        | None \<Rightarrow>
            let j = \<lparr>id_j = 0, slug = slugify (FormValue r ''title''),
                     title = FormValue r ''title'', date = FormValue r ''date'',
                     content = FormValue r ''content''\<rparr>;
                (res, err) = Exec E insert_query [slug j, title j, date j, content j]
            in (case res of
                  None \<Rightarrow> s\<lparr>halted := Some NilDereference\<rparr>
                | Some lastInsertId \<Rightarrow> s\<lparr>w := http_Redirect (RedirectURL E) (w s) r ''/'' 302\<rparr>))"

definition ViewController_Run :: "env \<Rightarrow> ControllerInterface \<Rightarrow> Request \<Rightarrow> world \<Rightarrow> world" where
  "ViewController_Run E c r s =
     render E ''./src/journal/views/view.tmpl'' (Some (params s (addr c))) s"

text \<open>\<open>controller.Run(w, r)\<close> through the interface: the method of the controller's type.\<close>

definition Run :: "env \<Rightarrow> ControllerInterface \<Rightarrow> Request \<Rightarrow> world \<Rightarrow> world" where
  "Run E c r s =
     (let s1 = s\<lparr>calls := calls s @ [CallRun c]\<rparr>
      in case ctype c of
           IndexController \<Rightarrow> IndexController_Run E r s1
         | NewController \<Rightarrow> NewController_Run E r s1
         | ViewController \<Rightarrow> ViewController_Run E c r s1)"

section \<open>The router (main.go)\<close>

record route =
  route_method :: string
  uri :: string
  matchable :: bool
  controller :: ControllerInterface

type_synonym mux = "route list"

definition add :: "mux \<Rightarrow> string \<Rightarrow> string \<Rightarrow> bool \<Rightarrow> ControllerInterface \<Rightarrow> mux" where
  "add m t u a c = m @ [\<lparr>route_method = t, uri = u, matchable = a, controller = c\<rparr>]"

text \<open>The method test that both branches of the loop body make.\<close>

definition method_ok :: "Request \<Rightarrow> route \<Rightarrow> bool" where
  "method_ok r rt \<longleftrightarrow> Method r = route_method rt \<or> (Method r = [] \<and> route_method rt = ''GET'')"

text \<open>
  The loop of \<open>ServeHTTP\<close> over the routes, with the two statements after the loop as the
  case of the exhausted list. Every branch that calls \<open>Run\<close> returns.
\<close>

fun serve_routes :: "env \<Rightarrow> route list \<Rightarrow> Request \<Rightarrow> world \<Rightarrow> world" where
  "serve_routes E [] r s =
     s\<lparr>logged := logged s @ [Method r @ '': '' @ Path r @ '' 404 Not Found''],
       w := http_NotFound (w s)\<rparr>"
| "serve_routes E (rt # rts) r s =
     (if Path r = uri rt \<and> method_ok r rt then Run E (controller rt) r s
      else if matchable rt then
        (if MatchString E (uri rt) (Path r) \<and> method_ok r rt
         then Run E (controller rt) r
                (SetParams (controller rt) (FindAllString E (uri rt) (Path r)) s)
         else serve_routes E rts r s)
      else serve_routes E rts r s)"

definition ServeHTTP :: "env \<Rightarrow> mux \<Rightarrow> Request \<Rightarrow> world \<Rightarrow> world" where
  "ServeHTTP E m r s =
     serve_routes E m r (s\<lparr>logged := logged s @ [Method r @ '': '' @ Path r]\<rparr>)"

text \<open>The route table that \<open>main\<close> registers: four routes, each with a controller of its own.\<close>

definition view_pattern :: string where
  "view_pattern = backslash # ''/(['' @ backslash # ''w'' @ backslash # ''-]+)''"

definition main_mux :: mux where
  "main_mux =
     add (add (add (add [] ''GET'' ''/'' False \<lparr>ctype = IndexController, addr = 0\<rparr>)
       ''GET'' ''/new'' False \<lparr>ctype = NewController, addr = 1\<rparr>)
       ''POST'' ''/new'' False \<lparr>ctype = NewController, addr = 2\<rparr>)
       ''GET'' view_pattern True \<lparr>ctype = ViewController, addr = 3\<rparr>"

text \<open>A world before any request: empty \<open>params\<close> everywhere, a fresh response.\<close>

definition world0 :: world where
  "world0 = \<lparr>params = (\<lambda>a. []), w = Reset, logged = [], calls = [], halted = None\<rparr>"

section \<open>An environment to run the router in\<close>

text \<open>
  For evaluating the router on concrete requests, the regular-expression engine at the one
  pattern that \<open>main\<close> registers, \<open>\/([\w\-]+)\<close>: a match is a slash followed by the longest
  run of word characters and hyphens, of one character at least, and the search for the
  next match starts where the last one ended.
\<close>

function view_matches :: "string \<Rightarrow> string list" where
  "view_matches [] = []"
| "view_matches (c # cs) =
     (if c = CHR ''/'' \<and> takeWhile is_seg_char cs \<noteq> []
      then (c # takeWhile is_seg_char cs) # view_matches (dropWhile is_seg_char cs)
      else view_matches cs)"
  by pat_completeness auto
termination
  by (relation "measure length") (auto simp: length_dropWhile_le le_imp_less_Suc)

text \<open>
  The templates of the example print their name and the data they are given; its database
  accepts every statement, and the one of \<open>failing_env\<close> refuses every insert. The
  redirects of the examples are to plain urls, for which \<open>RedirectURL\<close> is not consulted.
\<close>

definition example_template :: "string \<Rightarrow> string list option \<Rightarrow> string" where
  "example_template name data =
     ''{'' @ name @ (case data of None \<Rightarrow> [] | Some ps \<Rightarrow> concat (map (\<lambda>p. '' '' @ p) ps)) @ ''}''"

definition example_env :: env where
  "example_env =
     \<lparr>MatchString = (\<lambda>p s. p = view_pattern \<and> view_matches s \<noteq> []),
      FindAllString = (\<lambda>p s. if p = view_pattern then view_matches s else []),
      ParseFiles = (\<lambda>files. Some example_template),
      RedirectURL = (\<lambda>path url. (url, url)),
      Prepare = (\<lambda>q. None),
      Exec = (\<lambda>q args. (Some 1, None))\<rparr>"

definition failing_env :: env where
  "failing_env = example_env\<lparr>Exec := (\<lambda>q args. (None, Some ''constraint failed''))\<rparr>"

text \<open>
  A route takes the request when the method test holds and one of the two path tests of the
  loop body does: equality with \<open>uri\<close>, made for every route, or, for a matchable route, a
  match of the pattern.
\<close>

definition route_hit :: "env \<Rightarrow> Request \<Rightarrow> route \<Rightarrow> bool" where
  "route_hit E r rt \<longleftrightarrow>
     method_ok r rt \<and> (Path r = uri rt \<or> (matchable rt \<and> MatchString E (uri rt) (Path r)))"

text \<open>The controllers on which \<open>Run\<close> was called, in order.\<close>

fun run_calls :: "call list \<Rightarrow> ControllerInterface list" where
  "run_calls [] = []"
| "run_calls (CallRun c # cs) = c # run_calls cs"
| "run_calls (CallSetParams c p # cs) = run_calls cs"

section \<open>The test doubles of the Edit controller (the test file)\<close>

text \<open>
  \<open>FakeSqlite\<close> counts its calls and fails on demand. Its \<open>Rows\<close> field points to the cursor
  that \<open>Query\<close> hands out, one of the two mocks; \<open>Result\<close> is the \<open>sql.Result\<close> that \<open>Exec\<close>
  hands out, \<open>None\<close> for nil.
\<close>

datatype MockRows = MockEmptyRows | MockJournalSingleRow int

record FakeSqlite =
  Closed :: bool
  Connected :: bool
  ErrorAtQuery :: int
  ErrorMode :: bool
  ExpectedArgument :: string
  Queries :: int
  Result :: "int option"
  Rows :: MockRows

definition inArgs :: "FakeSqlite \<Rightarrow> string list \<Rightarrow> bool" where
  "inArgs f slice \<longleftrightarrow> ExpectedArgument f \<in> set slice"

definition Fake_Exec :: "FakeSqlite \<Rightarrow> string \<Rightarrow> string list \<Rightarrow> (int option \<times> string option) \<times> FakeSqlite" where
  "Fake_Exec f sql args =
     (let f1 = f\<lparr>Queries := Queries f + 1\<rparr>
      in if ErrorMode f1 \<or> ErrorAtQuery f1 = Queries f1
         then ((None, Some ''Simulating error''), f1)
         else if ExpectedArgument f1 \<noteq> [] \<and> \<not> inArgs f1 args
         then ((None, Some (''Expected '' @ ExpectedArgument f1 @ '' in query'')), f1)
         else ((Result f1, None), f1))"

definition Fake_Query :: "FakeSqlite \<Rightarrow> string \<Rightarrow> string list \<Rightarrow> (MockRows option \<times> string option) \<times> FakeSqlite" where
  "Fake_Query f sql args =
     (let f1 = f\<lparr>Queries := Queries f + 1\<rparr>
      in if ErrorMode f1 \<or> ErrorAtQuery f1 = Queries f1
         then ((None, Some ''Simulating error''), f1)
         else if ExpectedArgument f1 \<noteq> [] \<and> \<not> inArgs f1 args
         then ((None, Some (''Expected '' @ ExpectedArgument f1 @ '' in query'')), f1)
         else ((Some (Rows f1), None), f1))"

text \<open>\<open>Next\<close> and \<open>Scan\<close> of the two mocks; \<open>Scan\<close> fills the destinations it is given.\<close>

fun Mock_Next :: "MockRows \<Rightarrow> bool \<times> MockRows" where
  "Mock_Next MockEmptyRows = (False, MockEmptyRows)"
| "Mock_Next (MockJournalSingleRow RowNumber) =
     (RowNumber + 1 < 2, MockJournalSingleRow (RowNumber + 1))"

fun Mock_Scan :: "MockRows \<Rightarrow> Journal \<Rightarrow> Journal" where
  "Mock_Scan MockEmptyRows dest = dest"
| "Mock_Scan (MockJournalSingleRow RowNumber) dest =
     (if RowNumber = 1
      then \<lparr>id_j = 1, slug = ''slug'', title = ''Title'', date = ''2018-02-01'',
            content = ''Content''\<rparr>
      else dest)"

definition FakeSqlite0 :: FakeSqlite where
  "FakeSqlite0 =
     \<lparr>Closed = False, Connected = False, ErrorAtQuery = 0, ErrorMode = False,
      ExpectedArgument = [], Queries = 0, Result = None, Rows = MockEmptyRows\<rparr>"

section \<open>The Edit controller\<close>

text \<open>
  The Edit controller, its template and the store behind it are not among the sources; what
  follows is written from the spec and from what the test of the controller sets up.
\<close>

text \<open>
  Modelled from the spec: the Data Store contract with its Row Cursor, of which the sources
  only hold the test doubles. It is given over a store state \<open>'d\<close> that holds the
  database and the cursor of its last query: \<open>ds_query\<close> and \<open>ds_exec\<close> return the error
  (\<open>None\<close> for none), \<open>ds_next\<close> advances the cursor and tells whether a row is there,
  \<open>ds_scan\<close> reads the current row into an entry.
\<close>

record 'd DataStore =
  ds_query :: "'d \<Rightarrow> string \<Rightarrow> string list \<Rightarrow> string option \<times> 'd"
  ds_exec :: "'d \<Rightarrow> string \<Rightarrow> string list \<Rightarrow> string option \<times> 'd"
  ds_next :: "'d \<Rightarrow> bool \<times> 'd"
  ds_scan :: "'d \<Rightarrow> Journal \<Rightarrow> Journal"

text \<open>\<open>FakeSqlite\<close> with its mock cursor as such a store.\<close>

definition fake_store :: "FakeSqlite DataStore" where
  "fake_store =
     \<lparr>ds_query = (\<lambda>f q args. case Fake_Query f q args of ((rows, err), f1) \<Rightarrow> (err, f1)),
      ds_exec = (\<lambda>f q args. case Fake_Exec f q args of ((res, err), f1) \<Rightarrow> (err, f1)),
      ds_next = (\<lambda>f. case Mock_Next (Rows f) of (b, rows) \<Rightarrow> (b, f\<lparr>Rows := rows\<rparr>)),
      ds_scan = (\<lambda>f dest. Mock_Scan (Rows f) dest)\<rparr>"

text \<open>
  Modelled from the spec: the statements sent to the store, a query or an execute with its
  arguments, in the order they are sent.
\<close>

datatype store_op = OpQuery string "string list" | OpExec string "string list"

text \<open>
  Modelled from the spec: the state around one run of the controller, which is its \<open>Error\<close>
  flag, the store, the statements the store has received, and the response.
\<close>

record 'd edit_world =
  Error :: bool
  db :: 'd
  ops :: "store_op list"
  resp :: ResponseWriter

text \<open>
  Modelled from the spec: the data handed to the edit template, the flag and the loaded
  entry.
\<close>

record EditData =
  data_Error :: bool
  data_Journal :: Journal

text \<open>
  Modelled from the spec: the two statements of the controller, the query of an entry by
  its slug and the update of \<open>title\<close>, \<open>date\<close> and \<open>content\<close> for a slug. The spec fixes what
  they do, not their text.
\<close>

definition select_query :: string where
  "select_query = ''SELECT * FROM `journal` WHERE `slug` = ? LIMIT 1''"

definition update_query :: string where
  "update_query = ''UPDATE `journal` SET `title` = ?, `date` = ?, `content` = ? WHERE `slug` = ?''"

text \<open>
  Modelled from the spec: the marker of the error banner, \<open><div class="error">\<close>, and the
  text that the body of the 404 reply contains.
\<close>

definition error_marker :: string where
  "error_marker = ''<div class='' @ [CHR 0x22] @ ''error'' @ [CHR 0x22] @ ''>''"

definition not_found_page :: string where
  "not_found_page = ''Page Not Found''"

text \<open>
  Modelled from the spec: the load step of the Edit controller, which is not among the
  sources. The entry is queried by slug; a store failure and a cursor without a row both
  count as not found.
\<close>

definition load :: "'d DataStore \<Rightarrow> string \<Rightarrow> 'd edit_world \<Rightarrow> Journal option \<times> 'd edit_world" where
  "load D s_param s =
     (let (err, d1) = ds_query D (db s) select_query [s_param];
          s1 = s\<lparr>db := d1, ops := ops s @ [OpQuery select_query [s_param]]\<rparr>
      in case err of
           Some e \<Rightarrow> (None, s1)
         | None \<Rightarrow>
             let (has_row, d2) = ds_next D d1
             in if has_row
                then (Some (ds_scan D d2 \<lparr>id_j = 0, slug = [], title = [], date = [], content = []\<rparr>),
                      s1\<lparr>db := d2\<rparr>)
                else (None, s1\<lparr>db := d2\<rparr>))"

text \<open>
  Modelled from the spec: which values of the \<open>error\<close> query parameter raise the flag. The
  spec names the value \<open>1\<close>.
\<close>

definition truthy :: "string \<Rightarrow> bool" where
  "truthy v \<longleftrightarrow> v = ''1''"

text \<open>
  Modelled from the spec: \<open>Run\<close> of the Edit controller, which is not among the sources
  (only its test is). The transitions are those of the spec's Edit state machine:
  \<^item> the entry is loaded on every run; without it the reply is 404 with the not-found page,
    and nothing else happens;
  \<^item> \<open>GET\<close> sets the \<open>Error\<close> flag from the \<open>error\<close> query parameter and renders the edit
    template on the flag and the loaded entry (the template is outside the controller, and
    is a parameter here);
  \<^item> \<open>POST\<close> reads the form; when \<open>title\<close>, \<open>date\<close> and \<open>content\<close> are all empty it
    redirects to the same path with \<open>error=1\<close> and leaves the store alone; otherwise it
    executes the update for the entry's slug and redirects to \<open>/?saved=1\<close>. The spec
    records that the source does not handle a failure of the update, so the error of the
    update is not read.
  The spec gives no transition for another method; the model writes nothing then. The
  redirects go through \<open>http.Redirect\<close>, and \<open>lib\<close> is the library's rewriting of a url that
  is not plain.
\<close>

definition Edit_Run ::
  "(string \<Rightarrow> string \<Rightarrow> string \<times> string) \<Rightarrow> 'd DataStore \<Rightarrow> (EditData \<Rightarrow> string) \<Rightarrow> string
     \<Rightarrow> Request \<Rightarrow> 'd edit_world \<Rightarrow> 'd edit_world" where
  "Edit_Run lib D template s_param r s =
     (let (found, s1) = load D s_param s
      in case found of
           None \<Rightarrow> s1\<lparr>resp := Write (WriteHeader (resp s1) 404) not_found_page\<rparr>
         | Some j \<Rightarrow>
             if Method r = ''GET'' then
               let e = (case map_of (Query r) ''error'' of None \<Rightarrow> False | Some v \<Rightarrow> truthy v)
               in s1\<lparr>Error := e,
                     resp := Write (resp s1) (template \<lparr>data_Error = e, data_Journal = j\<rparr>)\<rparr>
             else if Method r = ''POST'' then
               let t = FormValue r ''title''; d = FormValue r ''date''; c = FormValue r ''content''
               in if t = [] \<and> d = [] \<and> c = []
                  then s1\<lparr>resp := http_Redirect lib (resp s1) r (Path r @ ''?error=1'') 302\<rparr>
                  else
                    let (err, d1) = ds_exec D (db s1) update_query [t, d, c, slug j]
                    in s1\<lparr>db := d1, ops := ops s1 @ [OpExec update_query [t, d, c, slug j]],
                          resp := http_Redirect lib (resp s1) r ''/?saved=1'' 302\<rparr>
             else s1)"

text \<open>
  Modelled from the spec: an edit template for running the controller, which prints the
  banner when the flag is set, then the form with the entry's fields.
\<close>

definition example_edit_template :: "EditData \<Rightarrow> string" where
  "example_edit_template d =
     (if data_Error d then error_marker @ ''Please fill in the form</div>'' else []) @
     ''<form><input name=title value='' @ title (data_Journal d) @
     ''><input name=date value='' @ date (data_Journal d) @
     ''><textarea name=content>'' @ content (data_Journal d) @ ''</textarea></form>''"

text \<open>A rewriting of urls for running the controller; its redirects are to plain urls.\<close>

definition example_lib :: "string \<Rightarrow> string \<Rightarrow> string \<times> string" where
  "example_lib path url = (url, url)"

definition edit_world0 :: "FakeSqlite \<Rightarrow> FakeSqlite edit_world" where
  "edit_world0 f = \<lparr>Error = False, db = f, ops = [], resp = Reset\<rparr>"

section \<open>Properties of the router\<close>

lemma run_calls_append: "run_calls (xs @ ys) = run_calls xs @ run_calls ys"
  by (induction xs rule: run_calls.induct) simp_all

lemma calls_render: "calls (render E v d s) = calls s"
  by (simp add: render_def split: option.splits)

lemma params_render: "params (render E v d s) = params s"
  by (simp add: render_def split: option.splits)

lemma calls_NewController_Run: "calls (NewController_Run E r s) = calls s"
  by (simp add: NewController_Run_def checkErr_def calls_render Let_def
           split: option.splits prod.splits)

lemma params_NewController_Run: "params (NewController_Run E r s) = params s"
  by (simp add: NewController_Run_def checkErr_def params_render Let_def
           split: option.splits prod.splits)

lemma calls_Run: "calls (Run E c r s) = calls s @ [CallRun c]"
  by (simp add: Run_def Let_def IndexController_Run_def ViewController_Run_def
        calls_render calls_NewController_Run split: ControllerType.splits)

lemma params_Run: "params (Run E c r s) = params s"
  by (simp add: Run_def Let_def IndexController_Run_def ViewController_Run_def
        params_render params_NewController_Run split: ControllerType.splits)

lemma serve_routes_skip:
  "\<forall>x \<in> set pre. \<not> route_hit E r x \<Longrightarrow>
   serve_routes E (pre @ rest) r s = serve_routes E rest r s"
  by (induction pre) (auto simp: route_hit_def)

lemma serve_routes_find:
  "serve_routes E m r s =
     (case find (route_hit E r) m of
        None \<Rightarrow> serve_routes E [] r s
      | Some rt \<Rightarrow>
          if Path r = uri rt then Run E (controller rt) r s
          else Run E (controller rt) r
                 (SetParams (controller rt) (FindAllString E (uri rt) (Path r)) s))"
  by (induction m) (auto simp: route_hit_def)

lemmas run_defs =
  main_mux_def add_def view_pattern_def backslash_def newline_def example_env_def
  failing_env_def example_template_def world0_def Run_def SetParams_def render_def
  method_ok_def route_hit_def IndexController_Run_def ViewController_Run_def
  NewController_Run_def checkErr_def is_seg_char_def is_word_char_def Write_def
  WriteHeader_def SetHeader_def Reset_def http_NotFound_def http_Redirect_def FormValue_def
  slugify_def ToLower_def lower_char_def slug_class_def first_byte_def byte_def in_range_def
  plain_url_def plain_path_def plain_query_def Let_def

text \<open>
  C4. When a request is dispatched through the regex branch of a matchable route (no
  earlier route takes it, the path differs from the pattern text, the pattern matches and
  the method is compatible), the router first calls \<open>SetParams\<close> with the list that
  \<open>FindAllString\<close> gives for the route's pattern on the request path, the matches of the
  whole pattern from left to right, and then \<open>Run\<close>, which starts from the state that
  \<open>SetParams\<close> left.
\<close>

theorem regex_branch_sets_params_then_runs:
  assumes "\<forall>x \<in> set pre. \<not> route_hit E r x"
    and "matchable rt"
    and "Path r \<noteq> uri rt"
    and "MatchString E (uri rt) (Path r)"
    and "method_ok r rt"
  shows "ServeHTTP E (pre @ rt # post) r s =
           Run E (controller rt) r
             (SetParams (controller rt) (FindAllString E (uri rt) (Path r))
                (s\<lparr>logged := logged s @ [Method r @ '': '' @ Path r]\<rparr>))
       \<and> calls (ServeHTTP E (pre @ rt # post) r s) =
           calls s @ [CallSetParams (controller rt) (FindAllString E (uri rt) (Path r)),
                      CallRun (controller rt)]
       \<and> params (ServeHTTP E (pre @ rt # post) r s) (addr (controller rt)) =
           FindAllString E (uri rt) (Path r)"
proof -
  let ?s0 = "s\<lparr>logged := logged s @ [Method r @ '': '' @ Path r]\<rparr>"
  let ?ps = "FindAllString E (uri rt) (Path r)"
  have step: "ServeHTTP E (pre @ rt # post) r s =
                Run E (controller rt) r (SetParams (controller rt) ?ps ?s0)"
    using assms by (simp add: ServeHTTP_def serve_routes_skip)
  show ?thesis
    unfolding step by (simp add: calls_Run params_Run SetParams_def)
qed

theorem regex_branch_sets_params_then_runs_witness:
  "calls (ServeHTTP example_env main_mux
       \<lparr>Method = ''GET'', Path = ''/hello/world'', Query = [], PostForm = []\<rparr> world0) =
     [CallSetParams \<lparr>ctype = ViewController, addr = 3\<rparr> [''/hello'', ''/world''],
      CallRun \<lparr>ctype = ViewController, addr = 3\<rparr>]
   \<and> params (ServeHTTP example_env main_mux
       \<lparr>Method = ''GET'', Path = ''/hello/world'', Query = [], PostForm = []\<rparr> world0) 3 =
     [''/hello'', ''/world'']"
proof -
  let ?r = "\<lparr>Method = ''GET'', Path = ''/hello/world'', Query = [], PostForm = []\<rparr>"
  let ?pre = "[\<lparr>route_method = ''GET'', uri = ''/'', matchable = False,
                 controller = \<lparr>ctype = IndexController, addr = 0\<rparr>\<rparr>,
               \<lparr>route_method = ''GET'', uri = ''/new'', matchable = False,
                 controller = \<lparr>ctype = NewController, addr = 1\<rparr>\<rparr>,
               \<lparr>route_method = ''POST'', uri = ''/new'', matchable = False,
                 controller = \<lparr>ctype = NewController, addr = 2\<rparr>\<rparr>]"
  let ?rt = "\<lparr>route_method = ''GET'', uri = view_pattern, matchable = True,
               controller = \<lparr>ctype = ViewController, addr = 3\<rparr>\<rparr>"
  have m: "main_mux = ?pre @ ?rt # []"
    by (simp add: main_mux_def add_def)
  have h1: "\<forall>x \<in> set ?pre. \<not> route_hit example_env ?r x"
    by (simp add: route_hit_def method_ok_def)
  have h2: "matchable ?rt" by simp
  have h3: "Path ?r \<noteq> uri ?rt"
    by (simp add: view_pattern_def backslash_def)
  have h4: "MatchString example_env (uri ?rt) (Path ?r)"
    by (simp add: example_env_def is_seg_char_def is_word_char_def)
  have h5: "method_ok ?r ?rt" by (simp add: method_ok_def)
  have fa: "FindAllString example_env (uri ?rt) (Path ?r) = [''/hello'', ''/world'']"
    by (simp add: example_env_def is_seg_char_def is_word_char_def)
  have "calls (ServeHTTP example_env (?pre @ ?rt # []) ?r world0) =
          calls world0 @ [CallSetParams (controller ?rt) [''/hello'', ''/world''],
                          CallRun (controller ?rt)]
      \<and> params (ServeHTTP example_env (?pre @ ?rt # []) ?r world0) (addr (controller ?rt)) =
          [''/hello'', ''/world'']"
    using regex_branch_sets_params_then_runs [OF h1 h2 h3 h4 h5, of "[]" world0]
    unfolding fa by blast
  then show ?thesis
    unfolding m by (simp add: world0_def)
qed

text \<open>
  C5. The router runs the controller of the first route, in registration order, that takes
  the request, and no other controller: the controllers run during \<open>ServeHTTP\<close> are the
  controller of the first route with \<open>route_hit\<close>, or none when no route has it. The method
  is compatible when it equals the route's method, or is empty while the route's is \<open>GET\<close>;
  for a route that is not matchable the path test is the equality of the request path and
  the route's \<open>uri\<close>.
\<close>

theorem first_hit_route_is_run:
  "run_calls (calls (ServeHTTP E m r s)) =
     run_calls (calls s) @
       (case find (route_hit E r) m of None \<Rightarrow> [] | Some rt \<Rightarrow> [controller rt])
   \<and> (method_ok r rt \<longleftrightarrow>
        Method r = route_method rt \<or> (Method r = [] \<and> route_method rt = ''GET''))
   \<and> (\<not> matchable rt \<longrightarrow>
        (route_hit E r rt \<longleftrightarrow> Path r = uri rt \<and> method_ok r rt))"
proof -
  have "run_calls (calls (ServeHTTP E m r s)) =
          run_calls (calls s) @
            (case find (route_hit E r) m of None \<Rightarrow> [] | Some rt \<Rightarrow> [controller rt])"
    by (simp add: ServeHTTP_def serve_routes_find [of E m] calls_Run run_calls_append
          SetParams_def split: option.splits)
  then show ?thesis
    by (auto simp: method_ok_def route_hit_def)
qed

theorem first_hit_route_is_run_witness:
  "run_calls (calls (ServeHTTP example_env main_mux
       \<lparr>Method = ''POST'', Path = ''/new'', Query = [], PostForm = []\<rparr> world0)) =
     [\<lparr>ctype = NewController, addr = 2\<rparr>]
   \<and> \<not> matchable \<lparr>route_method = ''POST'', uri = ''/new'', matchable = False,
                    controller = \<lparr>ctype = NewController, addr = 2\<rparr>\<rparr>
   \<and> route_hit example_env \<lparr>Method = ''POST'', Path = ''/new'', Query = [], PostForm = []\<rparr>
        \<lparr>route_method = ''POST'', uri = ''/new'', matchable = False,
         controller = \<lparr>ctype = NewController, addr = 2\<rparr>\<rparr>"
  using first_hit_route_is_run [of example_env main_mux
      "\<lparr>Method = ''POST'', Path = ''/new'', Query = [], PostForm = []\<rparr>" world0
      "\<lparr>route_method = ''POST'', uri = ''/new'', matchable = False,
        controller = \<lparr>ctype = NewController, addr = 2\<rparr>\<rparr>"]
  by (simp add: main_mux_def add_def route_hit_def method_ok_def world0_def)

text \<open>
  C6, as the code has it. When no route takes the request, the router runs no controller and
  answers with \<open>http.NotFound\<close>: status 404 and the text \<open>404 page not found\<close> with a
  newline, after logging the miss.
\<close>

theorem no_route_replies_404:
  assumes "find (route_hit E r) m = None"
  shows "w (ServeHTTP E m r s) = http_NotFound (w s)
       \<and> StatusCode (w (ServeHTTP E m r s)) = 404
       \<and> Content (w (ServeHTTP E m r s)) = Content (w s) @ ''404 page not found'' @ [newline]
       \<and> calls (ServeHTTP E m r s) = calls s
       \<and> logged (ServeHTTP E m r s) =
           logged s @ [Method r @ '': '' @ Path r, Method r @ '': '' @ Path r @ '' 404 Not Found'']"
  using assms
  by (simp add: ServeHTTP_def serve_routes_find [of E m] http_NotFound_def Write_def
        WriteHeader_def SetHeader_def)

theorem no_route_replies_404_witness:
  "find (route_hit example_env
       \<lparr>Method = ''DELETE'', Path = ''/new'', Query = [], PostForm = []\<rparr>) main_mux = None
   \<and> StatusCode (w (ServeHTTP example_env main_mux
       \<lparr>Method = ''DELETE'', Path = ''/new'', Query = [], PostForm = []\<rparr> world0)) = 404
   \<and> Content (w (ServeHTTP example_env main_mux
       \<lparr>Method = ''DELETE'', Path = ''/new'', Query = [], PostForm = []\<rparr> world0)) =
       ''404 page not found'' @ [newline]"
proof -
  let ?r = "\<lparr>Method = ''DELETE'', Path = ''/new'', Query = [], PostForm = []\<rparr>"
  have h: "find (route_hit example_env ?r) main_mux = None"
    by (simp add: main_mux_def add_def route_hit_def method_ok_def)
  have "StatusCode (w (ServeHTTP example_env main_mux ?r world0)) = 404
      \<and> Content (w (ServeHTTP example_env main_mux ?r world0)) =
          Content (w world0) @ ''404 page not found'' @ [newline]"
    using no_route_replies_404 [OF h, of world0] by blast
  then show ?thesis
    using h by (simp add: world0_def Reset_def)
qed

text \<open>
  C6, as the claim has it, fails: a \<open>DELETE\<close> of \<open>/new\<close> is taken by no route of \<open>main\<close>, and
  the body of the reply does not contain the text \<open>Page Not Found\<close>.
\<close>

theorem no_route_body_counterexample:
  "find (route_hit example_env
       \<lparr>Method = ''DELETE'', Path = ''/new'', Query = [], PostForm = []\<rparr>) main_mux = None
   \<and> \<not> Contains (Content (w (ServeHTTP example_env main_mux
         \<lparr>Method = ''DELETE'', Path = ''/new'', Query = [], PostForm = []\<rparr> world0)))
       ''Page Not Found''"
  by (simp add: ServeHTTP_def run_defs)

lemma rune_width_space: "rune_width (CHR '' '' # cs) = 1"
  by (simp add: first_byte_def byte_def)

lemma not_slug_class_word: "\<not> slug_class rune \<Longrightarrow> \<exists>c. rune = [c] \<and> is_word_char c"
  by (auto simp: slug_class_def split: list.splits)

lemma ReplaceAllString_slug_chars:
  "c \<in> set (ReplaceAllString slug_class s ''-'') \<Longrightarrow> is_word_char c \<or> c = CHR ''-''"
proof (induction s rule: length_induct)
  case (1 s)
  show ?case
  proof (cases s)
    case Nil
    with 1 show ?thesis by simp
  next
    case (Cons x xs)
    let ?n = "rune_width (x # xs)"
    let ?head = "if slug_class (take ?n (x # xs)) then ''-'' else take ?n (x # xs)"
    have unfolded: "ReplaceAllString slug_class s ''-'' =
        ?head @ ReplaceAllString slug_class (drop (?n - 1) xs) ''-''"
      unfolding Cons by (simp add: Let_def del: rune_width.simps)
    have shorter: "length (drop (?n - 1) xs) < length s"
      unfolding Cons by simp
    from 1(2) unfolded
    consider "c \<in> set ?head"
      | "c \<in> set (ReplaceAllString slug_class (drop (?n - 1) xs) ''-'')"
      by auto
    then show ?thesis
    proof cases
      case 1
      then show ?thesis
        by (cases "slug_class (take ?n (x # xs))") (auto dest: not_slug_class_word)
    next
      case 2
      with "1.IH" shorter show ?thesis by blast
    qed
  qed
qed

lemma slugify_multibyte_rune: "slugify [CHR 0xC3, CHR 0xA9] = ''-''"
  by (simp add: slugify_def ToLower_def lower_char_def slug_class_def first_byte_def byte_def
        in_range_def)

text \<open>
  C7. The claim asks for one separator for two adjacent non-word characters. \<open>slugify\<close>
  gives two: the comma and the space of \<open>Hello, World\<close> become a hyphen each, where
  collapsing the run would give one. A run is never collapsed: a title of \<open>n\<close> spaces
  gives \<open>n\<close> hyphens.
\<close>

theorem slugify_keeps_one_separator_per_character:
  "slugify ''Hello, World'' = ''hello--world''
   \<and> slug_as_specified ''Hello, World'' = ''hello-world''
   \<and> slugify (replicate n (CHR '' '')) = replicate n (CHR ''-'')"
proof -
  have a: "slugify ''Hello, World'' = ''hello--world''"
    by (simp add: slugify_def ToLower_def lower_char_def slug_class_def is_word_char_def
          first_byte_def byte_def)
  have b: "slug_as_specified ''Hello, World'' = ''hello-world''"
    by (simp add: slug_as_specified_def ToLower_def lower_char_def is_word_char_def)
  have c: "slugify (replicate n (CHR '' '')) = replicate n (CHR ''-'')"
    by (induction n)
       (simp_all add: slugify_def ToLower_def lower_char_def slug_class_def is_word_char_def
          rune_width_space del: rune_width.simps)
  show ?thesis
    using a b c by blast
qed

text \<open>
  C9. When the request path is equal to the \<open>uri\<close> text of a route, matchable or not, the
  method is compatible and no earlier route takes the request, the router runs the route's
  controller through the equality branch: \<open>Run\<close> is the only call, \<open>SetParams\<close> is not
  called, and every controller keeps the params it had.
\<close>

theorem equality_branch_runs_without_SetParams:
  assumes "\<forall>x \<in> set pre. \<not> route_hit E r x"
    and "Path r = uri rt"
    and "method_ok r rt"
  shows "ServeHTTP E (pre @ rt # post) r s =
           Run E (controller rt) r (s\<lparr>logged := logged s @ [Method r @ '': '' @ Path r]\<rparr>)
       \<and> calls (ServeHTTP E (pre @ rt # post) r s) = calls s @ [CallRun (controller rt)]
       \<and> params (ServeHTTP E (pre @ rt # post) r s) = params s"
proof -
  have step: "ServeHTTP E (pre @ rt # post) r s =
                Run E (controller rt) r (s\<lparr>logged := logged s @ [Method r @ '': '' @ Path r]\<rparr>)"
    using assms by (simp add: ServeHTTP_def serve_routes_skip)
  show ?thesis
    unfolding step by (simp add: calls_Run params_Run)
qed

theorem equality_branch_runs_without_SetParams_witness:
  "params (ServeHTTP example_env main_mux
       \<lparr>Method = ''GET'', Path = ''/hello'', Query = [], PostForm = []\<rparr> world0) 3 = [''/hello'']
   \<and> calls (ServeHTTP example_env main_mux
         \<lparr>Method = ''GET'', Path = view_pattern, Query = [], PostForm = []\<rparr>
         (ServeHTTP example_env main_mux
            \<lparr>Method = ''GET'', Path = ''/hello'', Query = [], PostForm = []\<rparr> world0)) =
       [CallSetParams \<lparr>ctype = ViewController, addr = 3\<rparr> [''/hello''],
        CallRun \<lparr>ctype = ViewController, addr = 3\<rparr>,
        CallRun \<lparr>ctype = ViewController, addr = 3\<rparr>]
   \<and> params (ServeHTTP example_env main_mux
         \<lparr>Method = ''GET'', Path = view_pattern, Query = [], PostForm = []\<rparr>
         (ServeHTTP example_env main_mux
            \<lparr>Method = ''GET'', Path = ''/hello'', Query = [], PostForm = []\<rparr> world0)) 3 =
       [''/hello'']"
proof -
  let ?r1 = "\<lparr>Method = ''GET'', Path = ''/hello'', Query = [], PostForm = []\<rparr>"
  let ?r2 = "\<lparr>Method = ''GET'', Path = view_pattern, Query = [], PostForm = []\<rparr>"
  let ?s1 = "ServeHTTP example_env main_mux ?r1 world0"
  let ?pre = "[\<lparr>route_method = ''GET'', uri = ''/'', matchable = False,
                 controller = \<lparr>ctype = IndexController, addr = 0\<rparr>\<rparr>,
               \<lparr>route_method = ''GET'', uri = ''/new'', matchable = False,
                 controller = \<lparr>ctype = NewController, addr = 1\<rparr>\<rparr>,
               \<lparr>route_method = ''POST'', uri = ''/new'', matchable = False,
                 controller = \<lparr>ctype = NewController, addr = 2\<rparr>\<rparr>]"
  let ?rt = "\<lparr>route_method = ''GET'', uri = view_pattern, matchable = True,
               controller = \<lparr>ctype = ViewController, addr = 3\<rparr>\<rparr>"
  have m: "main_mux = ?pre @ ?rt # []"
    by (simp add: main_mux_def add_def)
  have h1: "\<forall>x \<in> set ?pre. \<not> route_hit example_env ?r2 x"
    by (simp add: route_hit_def method_ok_def view_pattern_def backslash_def)
  have h2: "Path ?r2 = uri ?rt" by simp
  have h3: "method_ok ?r2 ?rt" by (simp add: method_ok_def)
  have first: "params ?s1 3 = [''/hello''] \<and>
      calls ?s1 = [CallSetParams \<lparr>ctype = ViewController, addr = 3\<rparr> [''/hello''],
                   CallRun \<lparr>ctype = ViewController, addr = 3\<rparr>]"
    by (simp add: ServeHTTP_def run_defs)
  have "calls (ServeHTTP example_env (?pre @ ?rt # []) ?r2 ?s1) =
          calls ?s1 @ [CallRun (controller ?rt)]
      \<and> params (ServeHTTP example_env (?pre @ ?rt # []) ?r2 ?s1) = params ?s1"
    using equality_branch_runs_without_SetParams [OF h1 h2 h3, of "[]" ?s1] by blast
  then show ?thesis
    unfolding m [symmetric] using first by simp
qed

text \<open>
  C10. On a \<open>POST\<close> to \<open>/new\<close> the router runs the controller of the third route. Once the
  statement is prepared, what happens next depends on the result of \<open>Exec\<close> alone and not
  on its error: with a nil result the call of \<open>LastInsertId\<close> panics, before anything is
  written to the response; with any other result the handler redirects to \<open>/\<close> with status
  302, whatever the error says.
\<close>

theorem post_new_never_reads_insert_error:
  assumes "Method r = ''POST''"
    and "Path r = ''/new''"
    and "Prepare E insert_query = None"
    and "Exec E insert_query [slugify (FormValue r ''title''), FormValue r ''title'',
           FormValue r ''date'', FormValue r ''content''] = (res, err)"
  shows "calls (ServeHTTP E main_mux r s) = calls s @ [CallRun \<lparr>ctype = NewController, addr = 2\<rparr>]
       \<and> (res = None \<longrightarrow>
            halted (ServeHTTP E main_mux r s) = Some NilDereference
            \<and> w (ServeHTTP E main_mux r s) = w s)
       \<and> (res \<noteq> None \<longrightarrow>
            halted (ServeHTTP E main_mux r s) = halted s
            \<and> StatusCode (w (ServeHTTP E main_mux r s)) = 302
            \<and> Headers (w (ServeHTTP E main_mux r s)) ''Location'' = Some ''/'')"
proof -
  have step: "ServeHTTP E main_mux r s =
      NewController_Run E r
        (s\<lparr>logged := logged s @ [Method r @ '': '' @ Path r],
           calls := calls s @ [CallRun \<lparr>ctype = NewController, addr = 2\<rparr>]\<rparr>)"
    using assms(1,2)
    by (simp add: ServeHTTP_def main_mux_def add_def method_ok_def Run_def Let_def)
  show ?thesis
    unfolding step using assms
    by (auto simp: NewController_Run_def checkErr_def Let_def http_Redirect_def plain_url_def
          plain_path_def plain_query_def SetHeader_def WriteHeader_def Write_def
          split: option.splits)
qed

theorem post_new_never_reads_insert_error_witness:
  "Exec failing_env insert_query [slugify ''Hello, World'', ''Hello, World'', ''2018-02-01'', ''Text'']
     = (None, Some ''constraint failed'')
   \<and> halted (ServeHTTP failing_env main_mux
        \<lparr>Method = ''POST'', Path = ''/new'', Query = [],
         PostForm = [(''title'', ''Hello, World''), (''date'', ''2018-02-01''),
                     (''content'', ''Text'')]\<rparr> world0) = Some NilDereference
   \<and> StatusCode (w (ServeHTTP failing_env main_mux
        \<lparr>Method = ''POST'', Path = ''/new'', Query = [],
         PostForm = [(''title'', ''Hello, World''), (''date'', ''2018-02-01''),
                     (''content'', ''Text'')]\<rparr> world0)) = 0"
proof -
  let ?r = "\<lparr>Method = ''POST'', Path = ''/new'', Query = [],
             PostForm = [(''title'', ''Hello, World''), (''date'', ''2018-02-01''),
                         (''content'', ''Text'')]\<rparr>"
  have h1: "Method ?r = ''POST''" by simp
  have h2: "Path ?r = ''/new''" by simp
  have h3: "Prepare failing_env insert_query = None"
    by (simp add: failing_env_def example_env_def)
  have h4: "Exec failing_env insert_query [slugify (FormValue ?r ''title''),
              FormValue ?r ''title'', FormValue ?r ''date'', FormValue ?r ''content'']
            = (None, Some ''constraint failed'')"
    by (simp add: failing_env_def example_env_def)
  have "halted (ServeHTTP failing_env main_mux ?r world0) = Some NilDereference
      \<and> w (ServeHTTP failing_env main_mux ?r world0) = w world0"
    using post_new_never_reads_insert_error [OF h1 h2 h3 h4, of world0] by blast
  then show ?thesis
    by (simp add: failing_env_def example_env_def world0_def Reset_def)
qed

section \<open>Properties of the Edit controller\<close>

lemma Contains_self: "Contains b b"
  by (cases b) simp_all

lemma Contains_append_right: "Contains (a @ b) b"
  by (induction a) (simp_all add: Contains_self)

lemma load_resp: "resp (snd (load D p s)) = resp s"
  by (simp add: load_def Let_def split: prod.splits option.splits)

lemma load_Error: "Error (snd (load D p s)) = Error s"
  by (simp add: load_def Let_def split: prod.splits option.splits)

lemma load_ops: "ops (snd (load D p s)) = ops s @ [OpQuery select_query [p]]"
  by (simp add: load_def Let_def split: prod.splits option.splits)

lemmas edit_defs =
  Edit_Run_def load_def fake_store_def Fake_Query_def Fake_Exec_def inArgs_def FakeSqlite0_def
  edit_world0_def truthy_def FormValue_def http_Redirect_def SetHeader_def WriteHeader_def
  Write_def Reset_def not_found_page_def select_query_def update_query_def example_lib_def
  plain_url_def plain_path_def plain_query_def is_seg_char_def is_word_char_def Let_def

text \<open>
  C3. Whatever the method of the request, \<open>GET\<close> and \<open>POST\<close> included, when the load of the
  entry finds no row the controller writes status 404 and the not-found page, whose text
  contains \<open>Page Not Found\<close>, and does nothing else: the store has received the query and
  no other statement, the headers carry no redirect, and the \<open>Error\<close> flag is as it was.
\<close>

theorem edit_missing_entry_is_404:
  assumes "fst (load D p s) = None"
  shows "Edit_Run lib D template p r s =
           (snd (load D p s))\<lparr>resp := Write (WriteHeader (resp s) 404) not_found_page\<rparr>
       \<and> StatusCode (resp (Edit_Run lib D template p r s)) = 404
       \<and> Contains (Content (resp (Edit_Run lib D template p r s))) ''Page Not Found''
       \<and> Headers (resp (Edit_Run lib D template p r s)) = Headers (resp s)
       \<and> ops (Edit_Run lib D template p r s) = ops s @ [OpQuery select_query [p]]
       \<and> db (Edit_Run lib D template p r s) = db (snd (load D p s))
       \<and> Error (Edit_Run lib D template p r s) = Error s"
proof -
  obtain s1 where l: "load D p s = (None, s1)"
    using assms by (cases "load D p s") simp
  have r1: "resp s1 = resp s" and e1: "Error s1 = Error s"
    and o1: "ops s1 = ops s @ [OpQuery select_query [p]]"
    using load_resp [of D p s] load_Error [of D p s] load_ops [of D p s] l by simp_all
  have step: "Edit_Run lib D template p r s =
                s1\<lparr>resp := Write (WriteHeader (resp s) 404) not_found_page\<rparr>"
    by (simp add: Edit_Run_def l r1)
  show ?thesis
    unfolding step
    by (simp add: l r1 e1 o1 Write_def WriteHeader_def not_found_page_def Contains_append_right)
qed

theorem edit_missing_entry_is_404_witness:
  "fst (load fake_store ''0'' (edit_world0 (FakeSqlite0\<lparr>Rows := MockEmptyRows\<rparr>))) = None
   \<and> StatusCode (resp (Edit_Run example_lib fake_store example_edit_template ''0''
        \<lparr>Method = ''POST'', Path = [], Query = [], PostForm = []\<rparr>
        (edit_world0 (FakeSqlite0\<lparr>Rows := MockEmptyRows\<rparr>)))) = 404
   \<and> Contains (Content (resp (Edit_Run example_lib fake_store example_edit_template ''0''
        \<lparr>Method = ''POST'', Path = [], Query = [], PostForm = []\<rparr>
        (edit_world0 (FakeSqlite0\<lparr>Rows := MockEmptyRows\<rparr>))))) ''Page Not Found''"
proof -
  let ?s = "edit_world0 (FakeSqlite0\<lparr>Rows := MockEmptyRows\<rparr>)"
  have h: "fst (load fake_store ''0'' ?s) = None"
    by (simp add: edit_defs)
  show ?thesis
    using h edit_missing_entry_is_404 [OF h, where lib = example_lib
        and template = example_edit_template
        and r = "\<lparr>Method = ''POST'', Path = [], Query = [], PostForm = []\<rparr>"]
    by blast
qed

lemma plain_from_no_query: "plain_from b p \<Longrightarrow> CHR ''?'' \<notin> set p"
  by (induction p arbitrary: b)
     (auto simp: is_seg_char_def is_word_char_def split: if_splits)

lemma plain_path_no_query: "plain_path p \<Longrightarrow> CHR ''?'' \<notin> set p"
  by (cases p) (auto simp: plain_path_def dest: plain_from_no_query)

lemma plain_url_saved: "plain_url ''/?saved=1''"
  by (simp add: plain_url_def plain_path_def plain_query_def is_seg_char_def is_word_char_def)

lemma plain_url_with_error:
  assumes "plain_path p"
  shows "plain_url (p @ ''?error=1'')"
proof -
  have all: "\<And>x. x \<in> set p \<Longrightarrow> x \<noteq> CHR ''?''"
    using plain_path_no_query [OF assms] by blast
  have t: "takeWhile (\<lambda>c. c \<noteq> CHR ''?'') (p @ ''?error=1'') = p"
    using all by simp
  have d: "dropWhile (\<lambda>c. c \<noteq> CHR ''?'') (p @ ''?error=1'') = ''?error=1''"
    using all by simp
  show ?thesis
    unfolding plain_url_def t d using assms
    by (simp add: plain_query_def is_seg_char_def is_word_char_def)
qed

text \<open>
  C1. On a \<open>POST\<close> for an entry that the load finds, with a request path that is plain
  (rooted, of segments of word characters and hyphens, so that \<open>http.Redirect\<close> keeps it as
  it is), when the form fields \<open>title\<close>, \<open>date\<close> and \<open>content\<close> are all empty the
  controller answers with status 302 and the \<open>Location\<close> of the request path followed by
  \<open>?error=1\<close>, and sends the store nothing after the load. Only the three being empty
  together makes the submission invalid: as soon as one of them is not empty, the update
  is sent.
\<close>

theorem edit_empty_post_redirects_with_error:
  assumes "load D p s = (Some j, s1)"
    and "Method r = ''POST''"
    and "plain_path (Path r)"
  shows "(FormValue r ''title'' = [] \<and> FormValue r ''date'' = [] \<and> FormValue r ''content'' = [] \<longrightarrow>
            StatusCode (resp (Edit_Run lib D template p r s)) = 302
          \<and> Headers (resp (Edit_Run lib D template p r s)) ''Location'' = Some (Path r @ ''?error=1'')
          \<and> db (Edit_Run lib D template p r s) = db s1
          \<and> ops (Edit_Run lib D template p r s) = ops s @ [OpQuery select_query [p]])
       \<and> (\<not> (FormValue r ''title'' = [] \<and> FormValue r ''date'' = [] \<and> FormValue r ''content'' = []) \<longrightarrow>
            ops (Edit_Run lib D template p r s) \<noteq> ops s @ [OpQuery select_query [p]])"
proof -
  have o1: "ops s1 = ops s @ [OpQuery select_query [p]]"
    using load_ops [of D p s] assms(1) by simp
  have pl: "plain_url (Path r @ ''?error=1'')"
    using assms(3) by (rule plain_url_with_error)
  show ?thesis
    using assms(2) o1 pl
    by (auto simp: Edit_Run_def assms(1) Let_def http_Redirect_def SetHeader_def
          WriteHeader_def Write_def split: prod.splits)
qed

theorem edit_empty_post_redirects_with_error_witness:
  "load fake_store ''0'' (edit_world0 (FakeSqlite0\<lparr>Rows := MockJournalSingleRow 0\<rparr>)) =
     (Some \<lparr>id_j = 1, slug = ''slug'', title = ''Title'', date = ''2018-02-01'',
            content = ''Content''\<rparr>,
      \<lparr>Error = False, db = FakeSqlite0\<lparr>Queries := 1, Rows := MockJournalSingleRow 1\<rparr>,
       ops = [OpQuery select_query [''0'']], resp = Reset\<rparr>)
   \<and> plain_path ''/slug/edit''
   \<and> StatusCode (resp (Edit_Run example_lib fake_store example_edit_template ''0''
        \<lparr>Method = ''POST'', Path = ''/slug/edit'', Query = [],
         PostForm = [(''title'', []), (''date'', []), (''content'', [])]\<rparr>
        (edit_world0 (FakeSqlite0\<lparr>Rows := MockJournalSingleRow 0\<rparr>)))) = 302
   \<and> Headers (resp (Edit_Run example_lib fake_store example_edit_template ''0''
        \<lparr>Method = ''POST'', Path = ''/slug/edit'', Query = [],
         PostForm = [(''title'', []), (''date'', []), (''content'', [])]\<rparr>
        (edit_world0 (FakeSqlite0\<lparr>Rows := MockJournalSingleRow 0\<rparr>)))) ''Location'' =
       Some ''/slug/edit?error=1''
   \<and> Queries (db (Edit_Run example_lib fake_store example_edit_template ''0''
        \<lparr>Method = ''POST'', Path = ''/slug/edit'', Query = [],
         PostForm = [(''title'', []), (''date'', []), (''content'', [])]\<rparr>
        (edit_world0 (FakeSqlite0\<lparr>Rows := MockJournalSingleRow 0\<rparr>)))) = 1"
proof -
  let ?s = "edit_world0 (FakeSqlite0\<lparr>Rows := MockJournalSingleRow 0\<rparr>)"
  let ?r = "\<lparr>Method = ''POST'', Path = ''/slug/edit'', Query = [],
             PostForm = [(''title'', []), (''date'', []), (''content'', [])]\<rparr>"
  let ?j = "\<lparr>id_j = 1, slug = ''slug'', title = ''Title'', date = ''2018-02-01'',
             content = ''Content''\<rparr>"
  let ?s1 = "\<lparr>Error = False, db = FakeSqlite0\<lparr>Queries := 1, Rows := MockJournalSingleRow 1\<rparr>,
              ops = [OpQuery select_query [''0'']], resp = Reset\<rparr>"
  have h1: "load fake_store ''0'' ?s = (Some ?j, ?s1)"
    by (simp add: edit_defs)
  have h2: "Method ?r = ''POST''" by simp
  have h3: "plain_path (Path ?r)"
    by (simp add: plain_path_def is_seg_char_def is_word_char_def)
  have e: "FormValue ?r ''title'' = [] \<and> FormValue ?r ''date'' = [] \<and> FormValue ?r ''content'' = []"
    by (simp add: FormValue_def)
  have "StatusCode (resp (Edit_Run example_lib fake_store example_edit_template ''0'' ?r ?s)) = 302
      \<and> Headers (resp (Edit_Run example_lib fake_store example_edit_template ''0'' ?r ?s)) ''Location'' =
          Some (Path ?r @ ''?error=1'')
      \<and> db (Edit_Run example_lib fake_store example_edit_template ''0'' ?r ?s) = db ?s1"
    using edit_empty_post_redirects_with_error [OF h1 h2 h3, where lib = example_lib
        and template = example_edit_template] e
    by blast
  then show ?thesis
    using h1 h3 by (simp add: FakeSqlite0_def)
qed

text \<open>
  C2. On a \<open>POST\<close> for an entry that the load finds, when the form fields are not all
  empty the controller sends the store one statement after the load, the update of
  \<open>title\<close>, \<open>date\<close> and \<open>content\<close> with the submitted values for the slug of the loaded
  entry, which names neither the id nor a new slug, and answers with status 302 and
  the \<open>Location\<close> \<open>/?saved=1\<close>.
\<close>

theorem edit_valid_post_updates_and_redirects:
  assumes "load D p s = (Some j, s1)"
    and "Method r = ''POST''"
    and "\<not> (FormValue r ''title'' = [] \<and> FormValue r ''date'' = [] \<and> FormValue r ''content'' = [])"
  shows "ops (Edit_Run lib D template p r s) =
           ops s @ [OpQuery select_query [p],
                    OpExec update_query [FormValue r ''title'', FormValue r ''date'',
                                         FormValue r ''content'', slug j]]
       \<and> db (Edit_Run lib D template p r s) =
           snd (ds_exec D (db s1) update_query
                  [FormValue r ''title'', FormValue r ''date'', FormValue r ''content'', slug j])
       \<and> StatusCode (resp (Edit_Run lib D template p r s)) = 302
       \<and> Headers (resp (Edit_Run lib D template p r s)) ''Location'' = Some ''/?saved=1''"
proof -
  have o1: "ops s1 = ops s @ [OpQuery select_query [p]]"
    using load_ops [of D p s] assms(1) by simp
  show ?thesis
    using assms(2,3) o1
    by (auto simp: Edit_Run_def assms(1) Let_def http_Redirect_def plain_url_saved SetHeader_def
          WriteHeader_def Write_def split: prod.splits)
qed

theorem edit_valid_post_updates_and_redirects_witness:
  "load fake_store ''0'' (edit_world0 (FakeSqlite0\<lparr>Rows := MockJournalSingleRow 0\<rparr>)) =
     (Some \<lparr>id_j = 1, slug = ''slug'', title = ''Title'', date = ''2018-02-01'',
            content = ''Content''\<rparr>,
      \<lparr>Error = False, db = FakeSqlite0\<lparr>Queries := 1, Rows := MockJournalSingleRow 1\<rparr>,
       ops = [OpQuery select_query [''0'']], resp = Reset\<rparr>)
   \<and> ops (Edit_Run example_lib fake_store example_edit_template ''0''
        \<lparr>Method = ''POST'', Path = ''/slug/edit'', Query = [],
         PostForm = [(''title'', ''Title''), (''date'', ''2018-02-01''),
                     (''content'', ''Test again'')]\<rparr>
        (edit_world0 (FakeSqlite0\<lparr>Rows := MockJournalSingleRow 0\<rparr>))) =
       [OpQuery select_query [''0''],
        OpExec update_query [''Title'', ''2018-02-01'', ''Test again'', ''slug'']]
   \<and> StatusCode (resp (Edit_Run example_lib fake_store example_edit_template ''0''
        \<lparr>Method = ''POST'', Path = ''/slug/edit'', Query = [],
         PostForm = [(''title'', ''Title''), (''date'', ''2018-02-01''),
                     (''content'', ''Test again'')]\<rparr>
        (edit_world0 (FakeSqlite0\<lparr>Rows := MockJournalSingleRow 0\<rparr>)))) = 302
   \<and> Headers (resp (Edit_Run example_lib fake_store example_edit_template ''0''
        \<lparr>Method = ''POST'', Path = ''/slug/edit'', Query = [],
         PostForm = [(''title'', ''Title''), (''date'', ''2018-02-01''),
                     (''content'', ''Test again'')]\<rparr>
        (edit_world0 (FakeSqlite0\<lparr>Rows := MockJournalSingleRow 0\<rparr>)))) ''Location'' =
       Some ''/?saved=1''"
proof -
  let ?s = "edit_world0 (FakeSqlite0\<lparr>Rows := MockJournalSingleRow 0\<rparr>)"
  let ?r = "\<lparr>Method = ''POST'', Path = ''/slug/edit'', Query = [],
             PostForm = [(''title'', ''Title''), (''date'', ''2018-02-01''),
                         (''content'', ''Test again'')]\<rparr>"
  let ?j = "\<lparr>id_j = 1, slug = ''slug'', title = ''Title'', date = ''2018-02-01'',
             content = ''Content''\<rparr>"
  let ?s1 = "\<lparr>Error = False, db = FakeSqlite0\<lparr>Queries := 1, Rows := MockJournalSingleRow 1\<rparr>,
              ops = [OpQuery select_query [''0'']], resp = Reset\<rparr>"
  have h1: "load fake_store ''0'' ?s = (Some ?j, ?s1)"
    by (simp add: edit_defs)
  have h2: "Method ?r = ''POST''" by simp
  have h3: "\<not> (FormValue ?r ''title'' = [] \<and> FormValue ?r ''date'' = [] \<and>
               FormValue ?r ''content'' = [])"
    by (simp add: FormValue_def)
  have f: "FormValue ?r ''title'' = ''Title'' \<and> FormValue ?r ''date'' = ''2018-02-01'' \<and>
           FormValue ?r ''content'' = ''Test again''"
    by (simp add: FormValue_def)
  have "ops (Edit_Run example_lib fake_store example_edit_template ''0'' ?r ?s) =
          ops ?s @ [OpQuery select_query [''0''],
                    OpExec update_query [FormValue ?r ''title'', FormValue ?r ''date'',
                                         FormValue ?r ''content'', slug ?j]]
      \<and> StatusCode (resp (Edit_Run example_lib fake_store example_edit_template ''0'' ?r ?s)) = 302
      \<and> Headers (resp (Edit_Run example_lib fake_store example_edit_template ''0'' ?r ?s)) ''Location'' =
          Some ''/?saved=1''"
    using edit_valid_post_updates_and_redirects [OF h1 h2 h3, where lib = example_lib
        and template = example_edit_template]
    by blast
  then show ?thesis
    using h1 f by (simp add: edit_world0_def)
qed

text \<open>
  C8. On a \<open>GET\<close> for an entry that the load finds, written to a fresh response, the
  controller renders the edit template on the loaded entry and on the \<open>Error\<close> flag, which
  it sets exactly when the \<open>error\<close> query parameter is present with the value \<open>1\<close>. For a
  template that prints the banner marker exactly when the flag is set, the body therefore
  contains the marker if and only if \<open>error=1\<close> was given, and does not contain it when the
  parameter is absent.
\<close>

theorem edit_get_shows_banner_iff_error_param:
  assumes "load D p s = (Some j, s1)"
    and "Method r = ''GET''"
    and "Content (resp s) = []"
    and "\<forall>e. Contains (template \<lparr>data_Error = e, data_Journal = j\<rparr>) error_marker \<longleftrightarrow> e"
  shows "(Contains (Content (resp (Edit_Run lib D template p r s))) error_marker \<longleftrightarrow>
            map_of (Query r) ''error'' = Some ''1'')
       \<and> (map_of (Query r) ''error'' = None \<longrightarrow>
            \<not> Contains (Content (resp (Edit_Run lib D template p r s))) error_marker)
       \<and> Error (Edit_Run lib D template p r s) = (map_of (Query r) ''error'' = Some ''1'')
       \<and> Content (resp (Edit_Run lib D template p r s)) =
           template \<lparr>data_Error = (map_of (Query r) ''error'' = Some ''1''), data_Journal = j\<rparr>
       \<and> ops (Edit_Run lib D template p r s) = ops s @ [OpQuery select_query [p]]"
proof -
  let ?e = "map_of (Query r) ''error'' = Some ''1''"
  have r1: "resp s1 = resp s" and o1: "ops s1 = ops s @ [OpQuery select_query [p]]"
    using load_resp [of D p s] load_ops [of D p s] assms(1) by simp_all
  have flag: "(case map_of (Query r) ''error'' of None \<Rightarrow> False | Some v \<Rightarrow> truthy v) = ?e"
    by (simp add: truthy_def split: option.splits)
  have step: "Edit_Run lib D template p r s =
      s1\<lparr>Error := ?e,
         resp := Write (resp s) (template \<lparr>data_Error = ?e, data_Journal = j\<rparr>)\<rparr>"
    using assms(2) by (simp add: Edit_Run_def assms(1) Let_def flag r1)
  have body: "Content (resp (Edit_Run lib D template p r s)) =
      template \<lparr>data_Error = ?e, data_Journal = j\<rparr>"
    unfolding step using assms(3) by (simp add: Write_def)
  have banner: "Contains (Content (resp (Edit_Run lib D template p r s))) error_marker \<longleftrightarrow> ?e"
    unfolding body using assms(4) by blast
  have flag': "Error (Edit_Run lib D template p r s) = ?e"
    unfolding step by simp
  have ops': "ops (Edit_Run lib D template p r s) = ops s @ [OpQuery select_query [p]]"
    unfolding step by (simp add: o1)
  show ?thesis
    using banner body flag' ops' by auto
qed

theorem edit_get_shows_banner_iff_error_param_witness:
  "load fake_store ''0'' (edit_world0 (FakeSqlite0\<lparr>Rows := MockJournalSingleRow 0\<rparr>)) =
     (Some \<lparr>id_j = 1, slug = ''slug'', title = ''Title'', date = ''2018-02-01'',
            content = ''Content''\<rparr>,
      \<lparr>Error = False, db = FakeSqlite0\<lparr>Queries := 1, Rows := MockJournalSingleRow 1\<rparr>,
       ops = [OpQuery select_query [''0'']], resp = Reset\<rparr>)
   \<and> (\<forall>e. Contains (example_edit_template \<lparr>data_Error = e, data_Journal =
          \<lparr>id_j = 1, slug = ''slug'', title = ''Title'', date = ''2018-02-01'',
           content = ''Content''\<rparr>\<rparr>) error_marker \<longleftrightarrow> e)
   \<and> Contains (Content (resp (Edit_Run example_lib fake_store example_edit_template ''0''
        \<lparr>Method = ''GET'', Path = ''/test/edit'', Query = [(''error'', ''1'')], PostForm = []\<rparr>
        (edit_world0 (FakeSqlite0\<lparr>Rows := MockJournalSingleRow 0\<rparr>))))) error_marker
   \<and> \<not> Contains (Content (resp (Edit_Run example_lib fake_store example_edit_template ''0''
        \<lparr>Method = ''GET'', Path = ''/slug/edit'', Query = [], PostForm = []\<rparr>
        (edit_world0 (FakeSqlite0\<lparr>Rows := MockJournalSingleRow 0\<rparr>))))) error_marker"
proof -
  let ?s = "edit_world0 (FakeSqlite0\<lparr>Rows := MockJournalSingleRow 0\<rparr>)"
  let ?r1 = "\<lparr>Method = ''GET'', Path = ''/test/edit'', Query = [(''error'', ''1'')],
              PostForm = []\<rparr>"
  let ?r2 = "\<lparr>Method = ''GET'', Path = ''/slug/edit'', Query = [], PostForm = []\<rparr>"
  let ?j = "\<lparr>id_j = 1, slug = ''slug'', title = ''Title'', date = ''2018-02-01'',
             content = ''Content''\<rparr>"
  let ?s1 = "\<lparr>Error = False, db = FakeSqlite0\<lparr>Queries := 1, Rows := MockJournalSingleRow 1\<rparr>,
              ops = [OpQuery select_query [''0'']], resp = Reset\<rparr>"
  have h1: "load fake_store ''0'' ?s = (Some ?j, ?s1)"
    by (simp add: edit_defs)
  have g1: "Method ?r1 = ''GET''" and g2: "Method ?r2 = ''GET''" by simp_all
  have h3: "Content (resp ?s) = []"
    by (simp add: edit_world0_def Reset_def)
  have t: "Contains (example_edit_template \<lparr>data_Error = True, data_Journal = ?j\<rparr>) error_marker"
    by (simp add: example_edit_template_def error_marker_def)
  have f: "\<not> Contains (example_edit_template \<lparr>data_Error = False, data_Journal = ?j\<rparr>) error_marker"
    by (simp add: example_edit_template_def error_marker_def)
  have h4: "\<forall>e. Contains (example_edit_template \<lparr>data_Error = e, data_Journal = ?j\<rparr>) error_marker
              \<longleftrightarrow> e"
  proof
    fix e
    show "Contains (example_edit_template \<lparr>data_Error = e, data_Journal = ?j\<rparr>) error_marker
            \<longleftrightarrow> e"
      using t f by (cases e) simp_all
  qed
  have a: "Contains (Content (resp (Edit_Run example_lib fake_store example_edit_template ''0'' ?r1 ?s)))
             error_marker \<longleftrightarrow> map_of (Query ?r1) ''error'' = Some ''1''"
    using edit_get_shows_banner_iff_error_param [OF h1 g1 h3 h4, where lib = example_lib]
    by blast
  have b: "Contains (Content (resp (Edit_Run example_lib fake_store example_edit_template ''0'' ?r2 ?s)))
             error_marker \<longleftrightarrow> map_of (Query ?r2) ''error'' = Some ''1''"
    using edit_get_shows_banner_iff_error_param [OF h1 g2 h3 h4, where lib = example_lib]
    by blast
  have a': "Contains (Content (resp (Edit_Run example_lib fake_store example_edit_template ''0'' ?r1 ?s)))
             error_marker"
    using a by simp
  have b': "\<not> Contains (Content (resp (Edit_Run example_lib fake_store example_edit_template ''0'' ?r2 ?s)))
             error_marker"
    using b by simp
  show ?thesis
    using h1 h4 a' b' by blast
qed

end
